theory Spec2Isabelle
  imports Complex_Main "HOL-Library.Char_ord" "HOL-Library.List_Lexorder" "HOL-Library.Log_Nat"
begin

section \<open>Values, entries and errors\<close>

text \<open>
  The dynamic values of package dsio: Go's \<^verbatim>\<open>interface{}\<close>, restricted to the
  seven kinds the readers build and the writers accept. Go's \<^verbatim>\<open>int\<close> is carried
  as an \<^typ>\<open>int\<close>; the 64-bit range is checked where the code checks it (Atoi). A
  \<^verbatim>\<open>float64\<close> is its exact value when finite (the two zeros are not told apart),
  or one of the three special values. A \<^verbatim>\<open>map[string]interface{}\<close> is the list of
  its pairs in increasing order of the keys (see \<open>map_store\<close>).
\<close>

datatype float64 = Finite rat | PosInf | NegInf | NaN

datatype Value =
    VNull
  | VBool bool
  | VInt int
  | VFloat float64
  | VString string
  | VArray "Value list"
  | VObject "(string \<times> Value) list"

text \<open>\<^verbatim>\<open>type Entry struct { Index int; Key string; Value interface{} }\<close>\<close>

record Entry =
  Index :: int
  Key :: string
  Value :: Value

text \<open>\<^verbatim>\<open>Entry{}\<close>, the zero value.\<close>

definition Entry0 :: Entry where
  "Entry0 = \<lparr>Index = 0, Key = [], Value = VNull\<rparr>"

text \<open>
  Go errors are messages (\<^verbatim>\<open>fmt.Errorf\<close>, \<^verbatim>\<open>errors.New\<close>); \<open>EOF\<close> is the
  sentinel \<^verbatim>\<open>io.EOF\<close>; \<open>NumError f s m\<close> is \<^verbatim>\<open>*strconv.NumError\<close> with its
  function name, its input and its message. A run-time panic (an index out of range) is
  kept apart from the errors a function returns, because no \<^verbatim>\<open>if err != nil\<close>
  catches it. \<open>OutOfFuel\<close> is no Go value: it marks that the bound on the recursion
  depth of the model of readValue ran out.
\<close>

datatype error = EOF | Error string | NumError string string string | Panic string | OutOfFuel

fun err_Error :: "error \<Rightarrow> string" where
  "err_Error EOF = ''EOF''"
| "err_Error (Error m) = m"
| "err_Error (NumError f s m) = ''strconv.'' @ f @ '': parsing '' @ [CHR 0x22] @ s @ [CHR 0x22] @ '': '' @ m"
| "err_Error (Panic m) = m"
| "err_Error OutOfFuel = []"

section \<open>The Go library functions the code calls\<close>

text \<open>
  These are not code of the repository. Each is written from the documentation and the
  source of the Go library, as far as the callers in package dsio can reach it.
\<close>

subsection \<open>unicode/utf8\<close>

definition RuneError :: nat where "RuneError = 0xFFFD"

definition byte :: "char \<Rightarrow> nat" where "byte c = of_char c"

definition contb :: "char \<Rightarrow> bool" where
  "contb c = (0x80 \<le> byte c \<and> byte c \<le> 0xBF)"

text \<open>\<^verbatim>\<open>utf8.DecodeRuneInString\<close>: the rune and the number of bytes it takes.\<close>

definition DecodeRune :: "string \<Rightarrow> nat \<times> nat" where
  "DecodeRune s =
     (case s of
        [] \<Rightarrow> (RuneError, 0)
      | c0 # s1 \<Rightarrow>
         (let b0 = byte c0 in
          if b0 < 0x80 then (b0, 1)
          else if b0 < 0xC2 \<or> 0xF4 < b0 then (RuneError, 1)
          else if b0 < 0xE0 then
            (case s1 of
               c1 # _ \<Rightarrow> if contb c1 then ((b0 mod 0x20) * 0x40 + byte c1 mod 0x40, 2)
                          else (RuneError, 1)
             | _ \<Rightarrow> (RuneError, 1))
          else if b0 < 0xF0 then
            (case s1 of
               c1 # c2 # _ \<Rightarrow>
                 if (if b0 = 0xE0 then 0xA0 else 0x80) \<le> byte c1
                    \<and> byte c1 \<le> (if b0 = 0xED then 0x9F else 0xBF) \<and> contb c2
                 then ((b0 mod 0x10) * 0x1000 + (byte c1 mod 0x40) * 0x40 + byte c2 mod 0x40, 3)
                 else (RuneError, 1)
             | _ \<Rightarrow> (RuneError, 1))
          else
            (case s1 of
               c1 # c2 # c3 # _ \<Rightarrow>
                 if (if b0 = 0xF0 then 0x90 else 0x80) \<le> byte c1
                    \<and> byte c1 \<le> (if b0 = 0xF4 then 0x8F else 0xBF) \<and> contb c2 \<and> contb c3
                 then ((b0 mod 0x08) * 0x40000 + (byte c1 mod 0x40) * 0x1000
                       + (byte c2 mod 0x40) * 0x40 + byte c3 mod 0x40, 4)
                 else (RuneError, 1)
             | _ \<Rightarrow> (RuneError, 1))))"

text \<open>\<^verbatim>\<open>utf8.AppendRune\<close> (to the empty slice).\<close>

definition EncodeRune :: "nat \<Rightarrow> string" where
  "EncodeRune r =
     (if r \<le> 0x7F then [char_of r]
      else if r \<le> 0x7FF then [char_of (0xC0 + r div 0x40), char_of (0x80 + r mod 0x40)]
      else if r > 0x10FFFF \<or> (0xD800 \<le> r \<and> r \<le> 0xDFFF) then [CHR 0xEF, CHR 0xBF, CHR 0xBD]
      else if r \<le> 0xFFFF then
        [char_of (0xE0 + r div 0x1000), char_of (0x80 + (r div 0x40) mod 0x40), char_of (0x80 + r mod 0x40)]
      else
        [char_of (0xF0 + r div 0x40000), char_of (0x80 + (r div 0x1000) mod 0x40),
         char_of (0x80 + (r div 0x40) mod 0x40), char_of (0x80 + r mod 0x40)])"

text \<open>\<^verbatim>\<open>utf8.ValidString\<close>\<close>

fun ValidString :: "string \<Rightarrow> bool" where
  "ValidString [] = True"
| "ValidString (c # s) =
     (if byte c < 0x80 then ValidString s
      else (case DecodeRune (c # s) of
              (r, n) \<Rightarrow> n \<noteq> 1 \<and> ValidString (drop (n - 1) s)))"


subsection \<open>strconv\<close>

definition isDigit :: "char \<Rightarrow> bool" where
  "isDigit c = (CHR ''0'' \<le> c \<and> c \<le> CHR ''9'')"

definition digitVal :: "char \<Rightarrow> nat" where
  "digitVal c = byte c - 48"

definition digitsVal :: "string \<Rightarrow> nat" where
  "digitsVal ds = foldl (\<lambda>a c. 10 * a + digitVal c) 0 ds"

definition isSign :: "char \<Rightarrow> bool" where
  "isSign c = (c = CHR ''+'' \<or> c = CHR ''-'')"

definition ErrSyntax :: string where "ErrSyntax = ''invalid syntax''"
definition ErrRange :: string where "ErrRange = ''value out of range''"

text \<open>
  \<^verbatim>\<open>strconv.Atoi\<close> where \<^verbatim>\<open>int\<close> has 64 bits: an optional sign and decimal
  digits, in the range of \<^verbatim>\<open>int64\<close>.
\<close>

definition Atoi :: "string \<Rightarrow> error + int" where
  "Atoi s =
     (let ds = (if s \<noteq> [] \<and> isSign (hd s) then tl s else s) in
      if ds = [] \<or> \<not> list_all isDigit ds then Inl (NumError ''Atoi'' s ErrSyntax)
      else
        (let v = (if hd s = CHR ''-'' then - int (digitsVal ds) else int (digitsVal ds)) in
         if v < - (2 ^ 63) \<or> 2 ^ 63 - 1 < v then Inl (NumError ''Atoi'' s ErrRange)
         else Inr v))"

text \<open>\<^verbatim>\<open>strconv.Itoa\<close>, which is also how \<^verbatim>\<open>json.Marshal\<close> writes an integer.\<close>

fun natDigits :: "nat \<Rightarrow> string" where
  "natDigits n =
     (if n < 10 then [''0123456789'' ! n]
      else natDigits (n div 10) @ [''0123456789'' ! (n mod 10)])"

definition Itoa :: "int \<Rightarrow> string" where
  "Itoa i = (if i < 0 then CHR ''-'' # natDigits (nat (- i)) else natDigits (nat i))"

text \<open>
  Rounding to \<^verbatim>\<open>float64\<close>, to nearest and to even on a tie; \<open>None\<close> when the
  rounded value is beyond the largest finite one.
\<close>

definition pow2 :: "int \<Rightarrow> rat" where
  "pow2 e = (if 0 \<le> e then 2 ^ nat e else 1 / 2 ^ nat (- e))"

definition ilog2 :: "rat \<Rightarrow> int" where
  "ilog2 a =
     (case quotient_of a of
        (p, q) \<Rightarrow>
          (let e = int (floorlog 2 (nat p)) - int (floorlog 2 (nat q)) in
           if pow2 e \<le> a then e else e - 1))"

definition roundEven :: "rat \<Rightarrow> int" where
  "roundEven x =
     (let f = \<lfloor>x\<rfloor>; d = x - of_int f in
      if d < 1 / 2 then f else if 1 / 2 < d then f + 1 else if even f then f else f + 1)"

definition round64 :: "rat \<Rightarrow> rat option" where
  "round64 x =
     (if x = 0 then Some 0
      else
        (let a = \<bar>x\<bar>;
             e = max (ilog2 a) (- 1022);
             ulp = pow2 (e - 52);
             r = of_int (roundEven (a / ulp)) * ulp
         in if pow2 1024 \<le> r then None else Some (if x < 0 then - r else r)))"

text \<open>
  \<^verbatim>\<open>strconv.ParseFloat(s, 64)\<close> on decimal spellings and on the names of the special
  values (an infinity may carry a sign, NaN may not). The hexadecimal spellings and the underscores Go accepts after a base prefix
  are not modelled: every byte of them lies outside what readNumber scans.
\<close>

definition lower :: "string \<Rightarrow> string" where
  "lower s = map (\<lambda>c. if CHR ''A'' \<le> c \<and> c \<le> CHR ''Z'' then char_of (byte c + 32) else c) s"

definition special :: "string \<Rightarrow> float64 option" where
  "special s =
     (let signed = (s \<noteq> [] \<and> isSign (hd s));
          neg = (s \<noteq> [] \<and> hd s = CHR ''-'');
          t = lower (if signed then tl s else s)
      in if t = ''inf'' \<or> t = ''infinity'' then Some (if neg then NegInf else PosInf)
         else if \<not> signed \<and> t = ''nan'' then Some NaN
         else None)"

definition decimal :: "string \<Rightarrow> rat option" where
  "decimal s =
     (let neg = (s \<noteq> [] \<and> hd s = CHR ''-'');
          s0 = (if s \<noteq> [] \<and> isSign (hd s) then tl s else s);
          ip = takeWhile isDigit s0;
          s1 = dropWhile isDigit s0;
          dot = (s1 \<noteq> [] \<and> hd s1 = CHR ''.'');
          fp = (if dot then takeWhile isDigit (tl s1) else []);
          s2 = (if dot then dropWhile isDigit (tl s1) else s1)
      in if ip = [] \<and> fp = [] then None
         else
           (let m = digitsVal (ip @ fp);
                sgn = (if neg then - 1 else 1)
            in if s2 = [] then Some (sgn * of_nat m / 10 ^ length fp)
               else if hd s2 = CHR ''e'' \<or> hd s2 = CHR ''E'' then
                 (let s3 = tl s2;
                      eneg = (s3 \<noteq> [] \<and> hd s3 = CHR ''-'');
                      ed = (if s3 \<noteq> [] \<and> isSign (hd s3) then tl s3 else s3)
                  in if ed = [] \<or> \<not> list_all isDigit ed then None
                     else if eneg
                       then Some (sgn * of_nat m / 10 ^ length fp / 10 ^ digitsVal ed)
                       else Some (sgn * of_nat m / 10 ^ length fp * 10 ^ digitsVal ed))
               else None))"

definition ParseFloat :: "string \<Rightarrow> error + float64" where
  "ParseFloat s =
     (case special s of
        Some f \<Rightarrow> Inr f
      | None \<Rightarrow>
         (case decimal s of
            None \<Rightarrow> Inl (NumError ''ParseFloat'' s ErrSyntax)
          | Some x \<Rightarrow>
             (case round64 x of
                None \<Rightarrow> Inl (NumError ''ParseFloat'' s ErrRange)
              | Some r \<Rightarrow> Inr (Finite r))))"


text \<open>
  \<^verbatim>\<open>strconv.Unquote\<close> of a double-quoted Go string literal, the one form readString
  passes to it (a text that starts with a double quote); the single-quoted and the
  back-quoted forms are not modelled.
\<close>

definition unhex :: "char \<Rightarrow> nat option" where
  "unhex c =
     (if CHR ''0'' \<le> c \<and> c \<le> CHR ''9'' then Some (byte c - 48)
      else if CHR ''a'' \<le> c \<and> c \<le> CHR ''f'' then Some (byte c - 97 + 10)
      else if CHR ''A'' \<le> c \<and> c \<le> CHR ''F'' then Some (byte c - 65 + 10)
      else None)"

definition hexVal :: "string \<Rightarrow> nat option" where
  "hexVal ds =
     (if list_all (\<lambda>c. unhex c \<noteq> None) ds
      then Some (foldl (\<lambda>a c. 16 * a + the (unhex c)) 0 ds) else None)"

definition ValidRune :: "nat \<Rightarrow> bool" where
  "ValidRune r = (r < 0xD800 \<or> (0xE000 \<le> r \<and> r \<le> 0x10FFFF))"

definition isOctal :: "char \<Rightarrow> bool" where
  "isOctal c = (CHR ''0'' \<le> c \<and> c \<le> CHR ''7'')"

text \<open>
  \<^verbatim>\<open>strconv.UnquoteChar(s, '"')\<close>: the value, whether it is a multibyte rune, and the
  rest of the text; \<open>None\<close> for a syntax error.
\<close>

definition UnquoteChar :: "string \<Rightarrow> (nat \<times> bool \<times> string) option" where
  "UnquoteChar s =
     (case s of
        [] \<Rightarrow> None
      | c # t \<Rightarrow>
          if c = CHR 0x22 then None
          else if 0x80 \<le> byte c then
            (case DecodeRune s of (r, n) \<Rightarrow> Some (r, True, drop n s))
          else if c \<noteq> CHR 0x5C then Some (byte c, False, t)
          else
            (case t of
               [] \<Rightarrow> None
             | c1 # t2 \<Rightarrow>
                 if c1 = CHR ''a'' then Some (7, False, t2)
                 else if c1 = CHR ''b'' then Some (8, False, t2)
                 else if c1 = CHR ''f'' then Some (12, False, t2)
                 else if c1 = CHR ''n'' then Some (10, False, t2)
                 else if c1 = CHR ''r'' then Some (13, False, t2)
                 else if c1 = CHR ''t'' then Some (9, False, t2)
                 else if c1 = CHR ''v'' then Some (11, False, t2)
                 else if c1 = CHR ''x'' \<or> c1 = CHR ''u'' \<or> c1 = CHR ''U'' then
                   (let n = (if c1 = CHR ''x'' then 2 else if c1 = CHR ''u'' then 4 else 8) in
                    if length t2 < n then None
                    else
                      (case hexVal (take n t2) of
                         None \<Rightarrow> None
                       | Some v \<Rightarrow>
                           if c1 = CHR ''x'' then Some (v, False, drop n t2)
                           else if \<not> ValidRune v then None
                           else Some (v, True, drop n t2)))
                 else if isOctal c1 then
                   (if length t2 < 2 \<or> \<not> list_all isOctal (take 2 t2) then None
                    else
                      (let v = (byte c1 - 48) * 64 + (byte (t2 ! 0) - 48) * 8 + (byte (t2 ! 1) - 48)
                       in if 255 < v then None else Some (v, False, drop 2 t2)))
                 else if c1 = CHR 0x5C then Some (0x5C, False, t2)
                 else if c1 = CHR 0x22 then Some (0x22, False, t2)
                 else None))"

lemma DecodeRune_size: "s \<noteq> [] \<Longrightarrow> 1 \<le> snd (DecodeRune s)"
  by (cases s) (simp_all add: DecodeRune_def Let_def split: list.splits)

lemma UnquoteChar_escape:
  assumes "UnquoteChar (CHR 0x5C # c1 # t2) = Some (r, m, t)"
  shows "\<exists>k. t = drop k t2"
proof -
  have "t = t2 \<or> t = drop 2 t2 \<or> t = drop 4 t2 \<or> t = drop 8 t2"
    using assms
    by (simp add: UnquoteChar_def byte_def Let_def split: if_splits option.splits)
  then show ?thesis by (metis drop0)
qed

lemma UnquoteChar_shorter:
  assumes "UnquoteChar s = Some (r, m, t)"
  shows "length t < length s"
proof (cases s)
  case Nil
  with assms show ?thesis by (simp add: UnquoteChar_def)
next
  case (Cons c u)
  show ?thesis
  proof (cases "c = CHR 0x5C")
    case False
    have "1 \<le> snd (DecodeRune s)" by (rule DecodeRune_size) (simp add: Cons)
    with assms Cons False show ?thesis
      by (auto simp: UnquoteChar_def split: if_splits prod.splits)
  next
    case True
    show ?thesis
    proof (cases u)
      case Nil
      with assms Cons True show ?thesis by (simp add: UnquoteChar_def byte_def)
    next
      case (Cons c1 t2)
      with assms \<open>s = c # u\<close> True obtain k where "t = drop k t2"
        using UnquoteChar_escape by blast
      with Cons \<open>s = c # u\<close> show ?thesis by simp
    qed
  qed
qed

function unquote_loop :: "string \<Rightarrow> string \<Rightarrow> (string \<times> string) option" where
  "unquote_loop s out =
     (if s \<noteq> [] \<and> hd s \<noteq> CHR 0x22 then
        (case UnquoteChar s of
           None \<Rightarrow> None
         | Some (r, multibyte, t) \<Rightarrow>
             if hd s = CHR 0x0A then None
             else unquote_loop t
                    (out @ (if r < 0x80 \<or> \<not> multibyte then [char_of r] else EncodeRune r)))
      else if s \<noteq> [] \<and> hd s = CHR 0x22 then Some (out, tl s)
      else None)"
  by pat_completeness auto
termination
  by (relation "measure (\<lambda>(s, out). length s)") (auto simp: UnquoteChar_shorter)

definition Unquote :: "string \<Rightarrow> error + string" where
  "Unquote s =
     (if length s < 2 \<or> hd s \<noteq> CHR 0x22 \<or> CHR 0x22 \<notin> set (tl s) then Inl (Error ErrSyntax)
      else
        (let inner = takeWhile (\<lambda>c. c \<noteq> CHR 0x22) (tl s);
             rest = tl (dropWhile (\<lambda>c. c \<noteq> CHR 0x22) (tl s))
         in if CHR 0x5C \<notin> set inner \<and> CHR 0x0A \<notin> set inner \<and> ValidString inner then
              (if rest = [] then Inr inner else Inl (Error ErrSyntax))
            else
              (case unquote_loop (tl s) [] of
                 None \<Rightarrow> Inl (Error ErrSyntax)
               | Some (out, rest') \<Rightarrow>
                   if rest' = [] then Inr out else Inl (Error ErrSyntax))))"

subsection \<open>encoding/json\<close>

text \<open>
  How \<^verbatim>\<open>json.Marshal\<close> writes a string (with its default escaping of HTML
  characters).
\<close>

definition hex :: string where "hex = ''0123456789abcdef''"

definition htmlSafe :: "char \<Rightarrow> bool" where
  "htmlSafe c = (0x20 \<le> byte c \<and> byte c < 0x80 \<and> c \<noteq> CHR 0x22 \<and> c \<noteq> CHR ''&''
                 \<and> c \<noteq> CHR ''<'' \<and> c \<noteq> CHR ''>'' \<and> c \<noteq> CHR 0x5C)"

definition escapeByte :: "char \<Rightarrow> string" where
  "escapeByte c =
     (if htmlSafe c then [c]
      else if c = CHR 0x5C \<or> c = CHR 0x22 then [CHR 0x5C, c]
      else if c = CHR 0x08 then [CHR 0x5C, CHR ''b'']
      else if c = CHR 0x0C then [CHR 0x5C, CHR ''f'']
      else if c = CHR 0x0A then [CHR 0x5C, CHR ''n'']
      else if c = CHR 0x0D then [CHR 0x5C, CHR ''r'']
      else if c = CHR 0x09 then [CHR 0x5C, CHR ''t'']
      else [CHR 0x5C, CHR ''u'', CHR ''0'', CHR ''0'', hex ! (byte c div 16), hex ! (byte c mod 16)])"

fun encodeChars :: "string \<Rightarrow> string" where
  "encodeChars [] = []"
| "encodeChars (c # s) =
     (if byte c < 0x80 then escapeByte c @ encodeChars s
      else
        (case DecodeRune (c # s) of
           (r, n) \<Rightarrow>
             if r = RuneError \<and> n = 1 then [CHR 0x5C] @ ''ufffd'' @ encodeChars s
             else if r = 0x2028 \<or> r = 0x2029
               then [CHR 0x5C] @ ''u202'' @ [hex ! (r mod 16)] @ encodeChars (drop (n - 1) s)
             else take n (c # s) @ encodeChars (drop (n - 1) s)))"

definition encodeString :: "string \<Rightarrow> string" where
  "encodeString s = [CHR 0x22] @ encodeChars s @ [CHR 0x22]"

fun collect :: "(error + 'a) list \<Rightarrow> error + 'a list" where
  "collect [] = Inr []"
| "collect (Inl e # xs) = Inl e"
| "collect (Inr x # xs) = (case collect xs of Inl e \<Rightarrow> Inl e | Inr ys \<Rightarrow> Inr (x # ys))"

fun joinComma :: "string list \<Rightarrow> string" where
  "joinComma [] = []"
| "joinComma [x] = x"
| "joinComma (x # y # ys) = x @ '','' @ joinComma (y # ys)"

text \<open>
  \<^verbatim>\<open>json.Marshal\<close> on the seven kinds of value. \<open>ff\<close> is how it writes a
  \<^verbatim>\<open>float64\<close> (the shortest decimal that reads back as the same number, or an error
  for NaN and the infinities). The pairs of a map are written in the order of their keys.
\<close>

fun Marshal :: "(float64 \<Rightarrow> error + string) \<Rightarrow> Value \<Rightarrow> error + string" where
  "Marshal ff VNull = Inr ''null''"
| "Marshal ff (VBool b) = Inr (if b then ''true'' else ''false'')"
| "Marshal ff (VInt i) = Inr (Itoa i)"
| "Marshal ff (VFloat f) = ff f"
| "Marshal ff (VString s) = Inr (encodeString s)"
| "Marshal ff (VArray vs) =
     (case collect (map (Marshal ff) vs) of
        Inl e \<Rightarrow> Inl e
      | Inr parts \<Rightarrow> Inr (''['' @ joinComma parts @ '']''))"
| "Marshal ff (VObject kvs) =
     (case collect (map snd (sort_key fst
             (map (\<lambda>(k, v). (k, case Marshal ff v of
                                     Inl e \<Rightarrow> Inl e
                                   | Inr d \<Rightarrow> Inr (encodeString k @ '':'' @ d))) kvs))) of
        Inl e \<Rightarrow> Inl e
      | Inr parts \<Rightarrow> Inr (''{'' @ joinComma parts @ ''}''))"

section \<open>bufio.Reader over a source that delivers its bytes in chunks\<close>

text \<open>
  The source (\<^verbatim>\<open>io.Reader\<close>) is the list of the chunks its next reads deliver: a read
  into \<open>n\<close> free bytes returns at most \<open>n\<close> bytes of the first chunk and leaves the
  rest of it for the next read; an empty chunk is a read that returns no byte and no
  error; with no chunk left, every read returns \<^verbatim>\<open>io.EOF\<close>.
\<close>

type_synonym io_Reader = "string list"

fun rd_Read :: "io_Reader \<Rightarrow> nat \<Rightarrow> string \<times> error option \<times> io_Reader" where
  "rd_Read [] n = ([], Some EOF, [])"
| "rd_Read (c # cs) n = (take n c, None, (if length c \<le> n then cs else drop n c # cs))"

text \<open>
  \<^verbatim>\<open>bufio.Reader\<close>: \<open>buf\<close> is the unread part \<^verbatim>\<open>b.buf[b.r:b.w]\<close>, \<open>bsize\<close> is
  \<^verbatim>\<open>len(b.buf)\<close>, \<open>berr\<close> is \<^verbatim>\<open>b.err\<close>.
\<close>

record bufio_Reader =
  buf :: string
  bsize :: nat
  rd :: io_Reader
  berr :: "error option"

definition ErrNoProgress :: error where
  "ErrNoProgress = Error ''multiple Read calls return no data or error''"

definition ErrBufferFull :: error where
  "ErrBufferFull = Error ''bufio: buffer full''"

definition NewReaderSize :: "io_Reader \<Rightarrow> nat \<Rightarrow> bufio_Reader" where
  "NewReaderSize r n = \<lparr>buf = [], bsize = max n 16, rd = r, berr = None\<rparr>"

definition NewReader :: "io_Reader \<Rightarrow> bufio_Reader" where
  "NewReader r = NewReaderSize r 4096"

text \<open>
  \<^verbatim>\<open>fill\<close> reads once more into the free part of the buffer; it gives up after 100
  reads that return nothing. (It panics on a full buffer; no caller below lets it.)
\<close>

fun fill_tries :: "nat \<Rightarrow> bufio_Reader \<Rightarrow> bufio_Reader" where
  "fill_tries 0 b = b\<lparr>berr := Some ErrNoProgress\<rparr>"
| "fill_tries (Suc i) b =
     (case rd_Read (rd b) (bsize b - length (buf b)) of
        (data, e, rest) \<Rightarrow>
          (let b' = b\<lparr>buf := buf b @ data, rd := rest\<rparr> in
           case e of
             Some err \<Rightarrow> b'\<lparr>berr := Some err\<rparr>
           | None \<Rightarrow> if data \<noteq> [] then b' else fill_tries i b'))"

definition fill :: "bufio_Reader \<Rightarrow> bufio_Reader" where
  "fill b = fill_tries 100 b"

definition Buffered :: "bufio_Reader \<Rightarrow> nat" where
  "Buffered b = length (buf b)"

text \<open>What is left in the source, in bytes and in reads.\<close>

definition pending :: "bufio_Reader \<Rightarrow> nat" where
  "pending b = length (concat (rd b)) + length (rd b)"

lemma fill_tries_pending:
  "berr (fill_tries i b) = None \<Longrightarrow> pending (fill_tries i b) < pending b"
proof (induction i arbitrary: b)
  case 0
  then show ?case by simp
next
  case (Suc i)
  show ?case
  proof (cases "rd b")
    case Nil
    with Suc.prems show ?thesis by simp
  next
    case (Cons c cs)
    let ?n = "bsize b - length (buf b)"
    let ?b = "b\<lparr>buf := buf b @ take ?n c, rd := (if length c \<le> ?n then cs else drop ?n c # cs)\<rparr>"
    show ?thesis
    proof (cases "take ?n c = []")
      case True
      then have eq: "fill_tries (Suc i) b = fill_tries i ?b" using Cons by simp
      with Suc.prems have "berr (fill_tries i ?b) = None" by simp
      then have "pending (fill_tries i ?b) < pending ?b" by (rule Suc.IH)
      moreover have "pending ?b \<le> pending b" using Cons by (simp add: pending_def)
      ultimately show ?thesis using eq by simp
    next
      case False
      then have eq: "fill_tries (Suc i) b = ?b" using Cons by simp
      have "pending ?b < pending b" using Cons False by (auto simp: pending_def)
      then show ?thesis using eq by simp
    qed
  qed
qed

lemma fill_tries_berr: "berr b \<noteq> None \<Longrightarrow> berr (fill_tries i b) \<noteq> None"
  by (induction i arbitrary: b) (auto simp: Let_def split: prod.splits option.splits)

lemma fill_pending: "berr (fill b) = None \<Longrightarrow> pending (fill b) < pending b"
  by (simp add: fill_def fill_tries_pending)

lemma fill_tries_pending_le: "pending (fill_tries i b) \<le> pending b"
proof (induction i arbitrary: b)
  case 0
  show ?case by (simp add: pending_def)
next
  case (Suc i)
  show ?case
  proof (cases "rd b")
    case Nil
    then show ?thesis by (simp add: pending_def)
  next
    case (Cons c cs)
    let ?n = "bsize b - length (buf b)"
    let ?b = "b\<lparr>buf := buf b @ take ?n c, rd := (if length c \<le> ?n then cs else drop ?n c # cs)\<rparr>"
    have le: "pending ?b \<le> pending b" using Cons by (simp add: pending_def)
    show ?thesis
    proof (cases "take ?n c = []")
      case True
      then have "fill_tries (Suc i) b = fill_tries i ?b" using Cons by simp
      with Suc.IH [of ?b] le show ?thesis by simp
    next
      case False
      then have "fill_tries (Suc i) b = ?b" using Cons by simp
      with le show ?thesis by simp
    qed
  qed
qed

lemma fill_pending_le: "pending (fill b) \<le> pending b"
  by (simp add: fill_def fill_tries_pending_le)

definition unsettled :: "bufio_Reader \<Rightarrow> nat" where
  "unsettled b = (if berr b = None then 1 else 0) + pending b"

lemma fill_unsettled: "berr b = None \<Longrightarrow> unsettled (fill b) < unsettled b"
  using fill_pending [of b] fill_pending_le [of b] by (auto simp: unsettled_def)

text \<open>The loop of \<^verbatim>\<open>Peek\<close>: fill until \<open>n\<close> bytes are there, the buffer is full, or an error.\<close>

function peek_fill :: "nat \<Rightarrow> bufio_Reader \<Rightarrow> bufio_Reader" where
  "peek_fill n b =
     (if length (buf b) < n \<and> length (buf b) < bsize b \<and> berr b = None
      then peek_fill n (fill b) else b)"
  by pat_completeness auto
termination
  by (relation "measure (\<lambda>(n, b). unsettled b)") (auto simp: fill_unsettled)

declare peek_fill.simps [simp del]

text \<open>\<^verbatim>\<open>Peek(n)\<close>: the bytes, the error, and the reader after it.\<close>

definition Peek :: "nat \<Rightarrow> bufio_Reader \<Rightarrow> (string \<times> error option) \<times> bufio_Reader" where
  "Peek n b =
     (let b1 = peek_fill n b in
      if bsize b1 < n then ((buf b1, Some ErrBufferFull), b1)
      else if length (buf b1) < n then
        ((buf b1, Some (case berr b1 of Some e \<Rightarrow> e | None \<Rightarrow> ErrBufferFull)),
         b1\<lparr>berr := None\<rparr>)
      else ((take n (buf b1), None), b1))"

text \<open>
  The loop of \<^verbatim>\<open>Discard(n)\<close> for \<open>n > 0\<close>, with \<open>remain\<close> bytes still to skip.
\<close>

function discard_loop :: "nat \<Rightarrow> bufio_Reader \<Rightarrow> bufio_Reader" where
  "discard_loop remain b =
     (let b1 = (if buf b = [] then fill b else b);
          skip = min (length (buf b1)) remain;
          b2 = b1\<lparr>buf := drop skip (buf b1)\<rparr>
      in if remain - skip = 0 then b2
         else if berr b2 \<noteq> None then b2\<lparr>berr := None\<rparr>
         else discard_loop (remain - skip) b2)"
  by pat_completeness auto
termination
proof (relation "measure (\<lambda>(remain, b). length (buf b) + pending b)", goal_cases)
  case 1
  show ?case by simp
next
  case (2 remain b b1 skip b2)
  show ?case
  proof (cases "buf b = []")
    case True
    with 2 have "berr (fill b) = None" by simp
    then have "pending (fill b) < pending b" by (rule fill_pending)
    moreover from 2 True have "length (buf (fill b)) < remain" by (simp add: min_def split: if_splits)
    ultimately show ?thesis using 2 True by (simp add: pending_def min_def)
  next
    case False
    with 2 show ?thesis by (auto simp: pending_def min_def split: if_splits)
  qed
qed

declare discard_loop.simps [simp del]

text \<open>
  \<^verbatim>\<open>Discard(n)\<close>; its two results are dropped by every caller, so only the reader
  after it is kept. A negative \<open>n\<close> is an error and skips nothing.
\<close>

definition Discard :: "int \<Rightarrow> bufio_Reader \<Rightarrow> bufio_Reader" where
  "Discard n b = (if n \<le> 0 then b else discard_loop (nat n) b)"

text \<open>\<^verbatim>\<open>ReadByte\<close>\<close>

function ReadByte :: "bufio_Reader \<Rightarrow> (error + char) \<times> bufio_Reader" where
  "ReadByte b =
     (if buf b = [] then
        (if berr b \<noteq> None then (Inl (the (berr b)), b\<lparr>berr := None\<rparr>)
         else ReadByte (fill b))
      else (Inr (hd (buf b)), b\<lparr>buf := tl (buf b)\<rparr>))"
  by pat_completeness auto
termination
proof (relation "measure (\<lambda>b. (if buf b = [] then 1 else 0) + 2 * unsettled b)", goal_cases)
  case 1
  show ?case by simp
next
  case (2 b)
  then have "unsettled (fill b) < unsettled b" by (simp add: fill_unsettled)
  with 2 show ?case by simp
qed

declare ReadByte.simps [simp del]

section \<open>The JSON writer (dsio/json.go)\<close>

text \<open>
  The destination \<^verbatim>\<open>io.Writer\<close> is a state \<open>'w\<close> with its \<^verbatim>\<open>Write\<close>
  method \<open>W\<close>, returning the new state and the error, if any. \<^verbatim>\<open>json.Marshal\<close>
  is the parameter \<open>M\<close>.
\<close>

type_synonym 'w io_Writer = "'w \<Rightarrow> string \<Rightarrow> 'w \<times> error option"

record 'w JSONWriter =
  rowsWritten :: int
  w_tlt :: string
  wr :: 'w
  keysWritten :: "string \<rightharpoonup> bool"

definition NewJSONWriter :: "string \<Rightarrow> 'w \<Rightarrow> 'w JSONWriter" where
  "NewJSONWriter tlt0 w =
     \<lparr>rowsWritten = 0, w_tlt = tlt0, wr = w, keysWritten = Map.empty\<rparr>"

definition valBytes ::
  "(Value \<Rightarrow> error + string) \<Rightarrow> 'w JSONWriter \<Rightarrow> Entry
     \<Rightarrow> (error + string) \<times> 'w JSONWriter" where
  "valBytes M w ent =
     (if w_tlt w = ''array'' then (M (Value ent), w)
      else if Key ent = [] then (Inl (Error ''entry key cannot be empty''), w)
      else if keysWritten w (Key ent) = Some True
        then (Inl (Error (''key already written: \"'' @ Key ent @ ''\"'')), w)
      else
        (let w1 = w\<lparr>keysWritten := (keysWritten w)(Key ent \<mapsto> True)\<rparr> in
         case M (VString (Key ent)) of
           Inl e \<Rightarrow> (Inl e, w1)
         | Inr data \<Rightarrow>
             (case M (Value ent) of
                Inl e \<Rightarrow> (Inl e, w1)
              | Inr val \<Rightarrow> (Inr (data @ '':'' @ val), w1))))"

text \<open>The deferred function of WriteEntry: it runs on every return.\<close>

definition deferred_inc :: "'w JSONWriter \<Rightarrow> 'w JSONWriter" where
  "deferred_inc w = w\<lparr>rowsWritten := rowsWritten w + 1\<rparr>"

definition WriteEntry ::
  "'w io_Writer \<Rightarrow> (Value \<Rightarrow> error + string) \<Rightarrow> 'w JSONWriter \<Rightarrow> Entry
     \<Rightarrow> error option \<times> 'w JSONWriter" where
  "WriteEntry W M w ent =
     (let opn = (if w_tlt w = ''object'' then ''{'' else ''['');
          (s1, e1) = (if rowsWritten w = 0 then W (wr w) opn else (wr w, None));
          w1 = w\<lparr>wr := s1\<rparr>
      in case e1 of
           Some e \<Rightarrow>
             (Some (Error (''error writing initial `'' @ opn @ ''`: '' @ err_Error e)),
              deferred_inc w1)
         | None \<Rightarrow>
            (case valBytes M w1 ent of
               (Inl e, w2) \<Rightarrow> (Some e, deferred_inc w2)
             | (Inr data, w2) \<Rightarrow>
                 (let enc = (if rowsWritten w2 = 0 then [] else '','');
                      (s3, e3) = W (wr w2) (enc @ data)
                  in (e3, deferred_inc (w2\<lparr>wr := s3\<rparr>)))))"

definition Close :: "'w io_Writer \<Rightarrow> 'w JSONWriter \<Rightarrow> error option \<times> 'w JSONWriter" where
  "Close W w =
     (if rowsWritten w = 0 then
        (let data = (if w_tlt w = ''object'' then ''{}'' else ''[]'');
             (s, e) = W (wr w) data
         in case e of
              Some e' \<Rightarrow>
                (Some (Error (''error writing empty closure '' @ [CHR 39] @ data @ [CHR 39]
                              @ '': '' @ err_Error e')), w\<lparr>wr := s\<rparr>)
            | None \<Rightarrow> (None, w\<lparr>wr := s\<rparr>))
      else
        (let cloze = (if w_tlt w = ''object'' then ''}'' else '']'');
             (s, e) = W (wr w) cloze
         in case e of
              Some e' \<Rightarrow> (Some (Error (''error closing writer: '' @ err_Error e')), w\<lparr>wr := s\<rparr>)
            | None \<Rightarrow> (None, w\<lparr>wr := s\<rparr>)))"

text \<open>
  A \<^verbatim>\<open>bytes.Buffer\<close> as destination: every write is appended and none fails.
\<close>

definition buffer_Write :: "string io_Writer" where
  "buffer_Write b p = (b @ p, None)"

section \<open>The CSV reader (dsio/csv.go, data\_format\_config.go)\<close>

text \<open>
  \<^verbatim>\<open>dataset.Structure\<close>, as far as the readers look at it: the format, the format
  configuration and the schema, both maps that may be nil.
\<close>

record Structure =
  Format :: string
  FormatConfig :: "(string \<times> Value) list option"
  Schema :: "(string \<times> Value) list option"

record CSVOptions =
  HeaderRow :: bool
  LazyQuotes :: bool
  Separator :: "char option"
  VariadicFields :: bool

definition boolOpt :: "(string \<times> Value) list \<Rightarrow> string \<Rightarrow> error + bool option" where
  "boolOpt opts name =
     (case map_of opts name of
        None \<Rightarrow> Inr None
      | Some VNull \<Rightarrow> Inr None
      | Some (VBool b) \<Rightarrow> Inr (Some b)
      | Some _ \<Rightarrow> Inl (Error (''invalid '' @ name @ '' value'')))"

definition sepOpt :: "(string \<times> Value) list \<Rightarrow> error + char option" where
  "sepOpt opts =
     (case map_of opts ''separator'' of
        None \<Rightarrow> Inr None
      | Some VNull \<Rightarrow> Inr None
      | Some (VString sep) \<Rightarrow>
          if length sep \<noteq> 1 then Inl (Error ''separator must be a single character'')
          else Inr (Some (hd sep))
      | Some _ \<Rightarrow> Inl (Error ''invalid separator value''))"

definition NewCSVOptions :: "(string \<times> Value) list option \<Rightarrow> error + CSVOptions" where
  "NewCSVOptions opts =
     (let opt0 = \<lparr>HeaderRow = False, LazyQuotes = False, Separator = None, VariadicFields = False\<rparr>
      in case opts of
           None \<Rightarrow> Inr opt0
         | Some m \<Rightarrow>
            (case boolOpt m ''headerRow'' of
               Inl e \<Rightarrow> Inl e
             | Inr h \<Rightarrow>
                (case boolOpt m ''lazyQuotes'' of
                   Inl e \<Rightarrow> Inl e
                 | Inr l \<Rightarrow>
                    (case sepOpt m of
                       Inl e \<Rightarrow> Inl e
                     | Inr sp \<Rightarrow>
                        (case boolOpt m ''variadicFields'' of
                           Inl e \<Rightarrow> Inl e
                         | Inr v \<Rightarrow>
                             Inr \<lparr>HeaderRow = (case h of Some b \<Rightarrow> b | None \<Rightarrow> False),
                                  LazyQuotes = (case l of Some b \<Rightarrow> b | None \<Rightarrow> False),
                                  Separator = sp,
                                  VariadicFields = (case v of Some b \<Rightarrow> b | None \<Rightarrow> False)\<rparr>)))))"

definition HasHeaderRow :: "Structure \<Rightarrow> bool" where
  "HasHeaderRow st =
     (if Format st = ''csv'' \<and> FormatConfig st \<noteq> None then
        (case NewCSVOptions (FormatConfig st) of Inr csvOpt \<Rightarrow> HeaderRow csvOpt | Inl _ \<Rightarrow> False)
      else False)"

text \<open>The title and the type of one column descriptor of the schema.\<close>

definition fieldTitle :: "Value \<Rightarrow> string" where
  "fieldTitle f =
     (case f of
        VObject field \<Rightarrow> (case map_of field ''title'' of Some (VString t) \<Rightarrow> t | _ \<Rightarrow> [])
      | _ \<Rightarrow> [])"

definition fieldType :: "Value \<Rightarrow> string" where
  "fieldType f =
     (case f of
        VObject field \<Rightarrow>
          (case map_of field ''type'' of
             Some (VString ts) \<Rightarrow> ts
           | Some (VArray (VString st # _)) \<Rightarrow> st
           | _ \<Rightarrow> ''string'')
      | _ \<Rightarrow> [])"

definition terribleHackToGetHeaderRowAndTypes ::
  "Structure \<Rightarrow> error + string list \<times> string list" where
  "terribleHackToGetHeaderRowAndTypes st =
     (case Schema st of
        None \<Rightarrow> Inl (Error ''nope'')
      | Some sch \<Rightarrow>
         (case map_of sch ''items'' of
            Some (VObject itemObj) \<Rightarrow>
              (case map_of itemObj ''items'' of
                 Some (VArray itemArr) \<Rightarrow> Inr (map fieldTitle itemArr, map fieldType itemArr)
               | _ \<Rightarrow> Inl (Error ''nope''))
          | _ \<Rightarrow> Inl (Error ''nope'')))"

text \<open>
  \<^verbatim>\<open>csv.Reader\<close> (encoding/csv, over the line-ending filter) is the list of the
  results its next calls of \<^verbatim>\<open>Read\<close> return; after them it returns \<^verbatim>\<open>io.EOF\<close>.
\<close>

type_synonym csv_Reader = "(error + string list) list"

fun csv_Read :: "csv_Reader \<Rightarrow> (error + string list) \<times> csv_Reader" where
  "csv_Read [] = (Inl EOF, [])"
| "csv_Read (x # xs) = (x, xs)"

record CSVReader =
  c_st :: Structure
  readHeader :: bool
  c_r :: csv_Reader
  types :: "string list"

definition NewCSVReader :: "Structure \<Rightarrow> csv_Reader \<Rightarrow> CSVReader" where
  "NewCSVReader st r =
     \<lparr>c_st = st, readHeader = False, c_r = r,
      types = (case terribleHackToGetHeaderRowAndTypes st of Inr (_, ts) \<Rightarrow> ts | Inl _ \<Rightarrow> [])\<rparr>"

text \<open>
  The parsers of package vals and \<^verbatim>\<open>json.Unmarshal\<close> into a map and into a slice:
  parameters of decode, each from the text of a field to a value or an error.
\<close>

record coercions =
  ParseNumber :: "string \<Rightarrow> error + Value"
  ParseInteger :: "string \<Rightarrow> error + Value"
  ParseBoolean :: "string \<Rightarrow> error + Value"
  UnmarshalObject :: "string \<Rightarrow> error + Value"
  UnmarshalArray :: "string \<Rightarrow> error + Value"

definition orText :: "error + Value \<Rightarrow> string \<Rightarrow> Value" where
  "orText res str = (case res of Inr v \<Rightarrow> v | Inl _ \<Rightarrow> VString str)"

definition decodeField :: "coercions \<Rightarrow> string \<Rightarrow> string \<Rightarrow> Value" where
  "decodeField P ty str =
     (if ty = ''number'' then orText (ParseNumber P str) str
      else if ty = ''integer'' then orText (ParseInteger P str) str
      else if ty = ''boolean'' then orText (ParseBoolean P str) str
      else if ty = ''object'' then orText (UnmarshalObject P str) str
      else if ty = ''array'' then orText (UnmarshalArray P str) str
      else if ty = ''null'' then VNull
      else VString str)"

definition decode :: "coercions \<Rightarrow> CSVReader \<Rightarrow> string list \<Rightarrow> error + Value list" where
  "decode P r strings =
     (let tys = (if length (types r) < length strings
                 then replicate (length strings) ''string'' else types r)
      in Inr (map (\<lambda>i. decodeField P (tys ! i) (strings ! i)) [0..<length strings]))"

text \<open>The first block of ReadEntry: the header row is read once and dropped.\<close>

definition skipHeader :: "CSVReader \<Rightarrow> error option \<times> CSVReader" where
  "skipHeader r =
     (if \<not> readHeader r then
        (if HasHeaderRow (c_st r) then
           (case csv_Read (c_r r) of
              (Inl e, c') \<Rightarrow> (Some e, r\<lparr>c_r := c'\<rparr>)
            | (Inr _, c') \<Rightarrow> (None, r\<lparr>c_r := c', readHeader := True\<rparr>))
         else (None, r\<lparr>readHeader := True\<rparr>))
      else (None, r))"

definition CSVReader_ReadEntry :: "coercions \<Rightarrow> CSVReader \<Rightarrow> (error + Entry) \<times> CSVReader" where
  "CSVReader_ReadEntry P r =
     (case skipHeader r of
        (Some e, r1) \<Rightarrow> (Inl e, r1)
      | (None, r1) \<Rightarrow>
         (case csv_Read (c_r r1) of
            (Inl e, c') \<Rightarrow> (Inl e, r1\<lparr>c_r := c'\<rparr>)
          | (Inr data, c') \<Rightarrow>
              (case decode P r1 data of
                 Inl e \<Rightarrow> (Inl e, r1\<lparr>c_r := c'\<rparr>)
               | Inr value \<Rightarrow> (Inr (Entry0\<lparr>Value := VArray value\<rparr>), r1\<lparr>c_r := c'\<rparr>))))"

text \<open>
  Modelled from the spec: the parsers of package vals, which is not among the source
  files (number: a floating-point parse; integer: an integer parse; boolean: a boolean
  parse, here \<^verbatim>\<open>strconv.ParseBool\<close>).
\<close>

definition vals_ParseNumber :: "string \<Rightarrow> error + Value" where
  "vals_ParseNumber s = (case ParseFloat s of Inl e \<Rightarrow> Inl e | Inr f \<Rightarrow> Inr (VFloat f))"

definition vals_ParseInteger :: "string \<Rightarrow> error + Value" where
  "vals_ParseInteger s = (case Atoi s of Inl e \<Rightarrow> Inl e | Inr i \<Rightarrow> Inr (VInt i))"

definition vals_ParseBoolean :: "string \<Rightarrow> error + Value" where
  "vals_ParseBoolean s =
     (if s \<in> {''1'', ''t'', ''T'', ''TRUE'', ''true'', ''True''} then Inr (VBool True)
      else if s \<in> {''0'', ''f'', ''F'', ''FALSE'', ''false'', ''False''} then Inr (VBool False)
      else Inl (NumError ''ParseBool'' s ErrSyntax))"

text \<open>
  In the examples no column is an object or an array, so \<^verbatim>\<open>json.Unmarshal\<close> is never
  called; this stands in its place.
\<close>

definition Unmarshal_unused :: "string \<Rightarrow> error + Value" where
  "Unmarshal_unused s = Inl (Error ''json.Unmarshal'')"

definition vals :: coercions where
  "vals = \<lparr>ParseNumber = vals_ParseNumber, ParseInteger = vals_ParseInteger,
           ParseBoolean = vals_ParseBoolean,
           UnmarshalObject = Unmarshal_unused, UnmarshalArray = Unmarshal_unused\<rparr>"


text \<open>
  The end-to-end scenario of the spec: two columns, \<open>n\<close> an integer and \<open>s\<close> a string, a
  header row, and the three records of the text \<^verbatim>\<open>n,s\n1,foo\n2,bar\n\<close>.
\<close>

definition scenario_st :: Structure where
  "scenario_st =
     \<lparr>Format = ''csv'',
      FormatConfig = Some [(''headerRow'', VBool True)],
      Schema = Some [(''type'', VString ''array''),
                     (''items'', VObject [(''type'', VString ''array''),
                        (''items'', VArray
                           [VObject [(''title'', VString ''n''), (''type'', VString ''integer'')],
                            VObject [(''title'', VString ''s''), (''type'', VString ''string'')]])])]\<rparr>"

definition scenario_reader :: CSVReader where
  "scenario_reader =
     NewCSVReader scenario_st [Inr [''n'', ''s''], Inr [''1'', ''foo''], Inr [''2'', ''bar'']]"



section \<open>The line-ending filter (package replacecr)\<close>

record crlfReplaceReader =
  rdr :: bufio_Reader

definition Reader :: "io_Reader \<Rightarrow> crlfReplaceReader" where
  "Reader data = \<lparr>rdr = NewReader data\<rparr>"

text \<open>
  The loop of \<^verbatim>\<open>Read(p)\<close>: \<open>n\<close> bytes of \<open>p\<close> are written so far. The result is
  \<open>(n, err)\<close>, the contents of \<open>p\<close> and the reader. An assignment to \<^verbatim>\<open>p[n]\<close> with
  \<open>n\<close> not below \<^verbatim>\<open>len(p)\<close> panics.
\<close>

definition indexPanic :: error where
  "indexPanic = Panic ''runtime error: index out of range''"

function crlf_loop ::
  "nat \<Rightarrow> string \<Rightarrow> bufio_Reader \<Rightarrow> (nat \<times> error option) \<times> string \<times> bufio_Reader" where
  "crlf_loop n p b =
     (if n = length p then ((n, None), p, b)
      else if length p < n then ((n, Some indexPanic), p, b)
      else
        (case ReadByte b of
           (Inl e, b1) \<Rightarrow> ((n, Some e), p[n := CHR 0x00], b1)
         | (Inr c, b1) \<Rightarrow>
             if c = CHR 0x0D \<and> n < length p then
               (case Peek 1 b1 of
                  ((pk, perr), b2) \<Rightarrow>
                    if (perr = None \<and> pk ! 0 \<noteq> CHR 0x0A)
                       \<or> (perr \<noteq> None \<and> err_Error (the perr) = ''EOF'')
                    then
                      (if n + 1 < length p
                       then crlf_loop (n + 2) (p[n := c, n + 1 := CHR 0x0A]) b2
                       else ((n + 1, Some indexPanic), p[n := c], b2))
                    else crlf_loop (n + 1) (p[n := c]) b2)
             else crlf_loop (n + 1) (p[n := c]) b1))"
  by pat_completeness auto
termination
  by (relation "measure (\<lambda>(n, p, b). length p - n)") auto

declare crlf_loop.simps [simp del]

definition crlf_Read ::
  "crlfReplaceReader \<Rightarrow> string \<Rightarrow> (nat \<times> error option) \<times> string \<times> crlfReplaceReader" where
  "crlf_Read c p =
     (if length p = 0 then ((0, None), p, c)
      else (case crlf_loop 0 p (rdr c) of (res, p', b) \<Rightarrow> (res, p', c\<lparr>rdr := b\<rparr>)))"

section \<open>Properties of the JSON writer\<close>

text \<open>
  C9. Close on a writer that never received an entry, for every destination \<open>W\<close> in
  every state \<open>s\<close>: Close issues exactly one write, of \<open>[]\<close> in array mode and of
  \<open>{}\<close> in object mode, so the destination ends in the state that this single write
  leaves, and nothing else of the writer changes; Close reports no error exactly when
  that write reports none. On a buffer (a destination that appends and never fails)
  holding \<open>b\<close> the output is \<open>b\<close> followed by the two bytes, hence exactly \<open>[]\<close> or
  \<open>{}\<close> for a fresh buffer.
\<close>

theorem Close_without_WriteEntry:
  "snd (Close W (NewJSONWriter ''array'' s)) =
     (NewJSONWriter ''array'' s)\<lparr>wr := fst (W s ''[]'')\<rparr> \<and>
   snd (Close W (NewJSONWriter ''object'' s)) =
     (NewJSONWriter ''object'' s)\<lparr>wr := fst (W s ''{}'')\<rparr> \<and>
   (fst (Close W (NewJSONWriter ''array'' s)) = None) = (snd (W s ''[]'') = None) \<and>
   (fst (Close W (NewJSONWriter ''object'' s)) = None) = (snd (W s ''{}'') = None) \<and>
   Close buffer_Write (NewJSONWriter ''array'' b) =
     (None, (NewJSONWriter ''array'' b)\<lparr>wr := b @ ''[]''\<rparr>) \<and>
   Close buffer_Write (NewJSONWriter ''object'' b) =
     (None, (NewJSONWriter ''object'' b)\<lparr>wr := b @ ''{}''\<rparr>) \<and>
   wr (snd (Close buffer_Write (NewJSONWriter ''array'' []))) = ''[]'' \<and>
   wr (snd (Close buffer_Write (NewJSONWriter ''object'' []))) = ''{}''"
proof -
  have arr: "Close W (NewJSONWriter ''array'' s) =
      ((case snd (W s ''[]'') of
          None \<Rightarrow> None
        | Some e \<Rightarrow> Some (Error (''error writing empty closure '' @ [CHR 39] @ ''[]''
                                   @ [CHR 39] @ '': '' @ err_Error e))),
       (NewJSONWriter ''array'' s)\<lparr>wr := fst (W s ''[]'')\<rparr>)" for W :: "'a io_Writer" and s
    by (simp add: Close_def NewJSONWriter_def split: prod.splits option.splits)
  have obj: "Close W (NewJSONWriter ''object'' s) =
      ((case snd (W s ''{}'') of
          None \<Rightarrow> None
        | Some e \<Rightarrow> Some (Error (''error writing empty closure '' @ [CHR 39] @ ''{}''
                                   @ [CHR 39] @ '': '' @ err_Error e))),
       (NewJSONWriter ''object'' s)\<lparr>wr := fst (W s ''{}'')\<rparr>)" for W :: "'a io_Writer" and s
    by (simp add: Close_def NewJSONWriter_def split: prod.splits option.splits)
  have b1: "Close buffer_Write (NewJSONWriter ''array'' b) =
     (None, (NewJSONWriter ''array'' b)\<lparr>wr := b @ ''[]''\<rparr>)"
    by (simp add: Close_def NewJSONWriter_def buffer_Write_def)
  have b2: "Close buffer_Write (NewJSONWriter ''object'' b) =
     (None, (NewJSONWriter ''object'' b)\<lparr>wr := b @ ''{}''\<rparr>)"
    by (simp add: Close_def NewJSONWriter_def buffer_Write_def)
  have b3: "wr (snd (Close buffer_Write (NewJSONWriter ''array'' []))) = ''[]''"
    by (simp add: Close_def NewJSONWriter_def buffer_Write_def)
  have b4: "wr (snd (Close buffer_Write (NewJSONWriter ''object'' []))) = ''{}''"
    by (simp add: Close_def NewJSONWriter_def buffer_Write_def)
  have a1: "snd (Close W (NewJSONWriter ''array'' s)) =
     (NewJSONWriter ''array'' s)\<lparr>wr := fst (W s ''[]'')\<rparr>" by (simp add: arr)
  have a2: "snd (Close W (NewJSONWriter ''object'' s)) =
     (NewJSONWriter ''object'' s)\<lparr>wr := fst (W s ''{}'')\<rparr>" by (simp add: obj)
  have a3: "(fst (Close W (NewJSONWriter ''array'' s)) = None) = (snd (W s ''[]'') = None)"
    by (simp add: arr split: option.splits)
  have a4: "(fst (Close W (NewJSONWriter ''object'' s)) = None) = (snd (W s ''{}'') = None)"
    by (simp add: obj split: option.splits)
  from a1 a2 a3 a4 b1 b2 b3 b4 show ?thesis by (intro conjI)
qed

section \<open>Properties of the CSV reader\<close>

lemmas csv_eval = CSVReader_ReadEntry_def skipHeader_def scenario_reader_def scenario_st_def NewCSVReader_def
  terribleHackToGetHeaderRowAndTypes_def fieldTitle_def fieldType_def HasHeaderRow_def
  NewCSVOptions_def boolOpt_def sepOpt_def decode_def decodeField_def orText_def vals_def
  vals_ParseInteger_def vals_ParseNumber_def Atoi_def isSign_def isDigit_def digitsVal_def
  digitVal_def byte_def Entry0_def Let_def

text \<open>
  C3, as stated, fails: the reader never sets the index. In the scenario of the spec the
  second entry (value \<open>[2, "bar"]\<close>) comes back with index 0, not 1.
\<close>

theorem CSVReader_index_counterexample:
  "fst (CSVReader_ReadEntry vals (snd (CSVReader_ReadEntry vals scenario_reader))) =
     Inr \<lparr>Index = 0, Key = [], Value = VArray [VInt 2, VString ''bar'']\<rparr>"
  by (simp add: csv_eval)

text \<open>
  C3, amended: every successful ReadEntry of the CSV reader returns an entry whose index
  is 0 and whose key is empty, whatever the number of records read before (the reader
  keeps no count of them; \<^verbatim>\<open>Entry{Value: value}\<close> leaves both at their zero
  values).
\<close>

theorem CSVReader_ReadEntry_index:
  "CSVReader_ReadEntry P r = (Inr e, r') \<Longrightarrow> Index e = 0 \<and> Key e = []"
  by (auto simp: CSVReader_ReadEntry_def Entry0_def split: prod.splits sum.splits option.splits)

theorem CSVReader_ReadEntry_index_witness:
  "CSVReader_ReadEntry vals scenario_reader =
     (Inr \<lparr>Index = 0, Key = [], Value = VArray [VInt 1, VString ''foo'']\<rparr>,
      snd (CSVReader_ReadEntry vals scenario_reader))
   \<and> Index \<lparr>Index = 0, Key = [], Value = VArray [VInt 1, VString ''foo'']\<rparr> = 0
   \<and> Key \<lparr>Index = 0, Key = [], Value = VArray [VInt 1, VString ''foo'']\<rparr> = []"
proof -
  have run: "CSVReader_ReadEntry vals scenario_reader =
     (Inr \<lparr>Index = 0, Key = [], Value = VArray [VInt 1, VString ''foo'']\<rparr>,
      snd (CSVReader_ReadEntry vals scenario_reader))"
    by (simp add: csv_eval)
  from CSVReader_ReadEntry_index [OF run] run show ?thesis by simp
qed











section \<open>Properties of the line-ending filter\<close>

text \<open>
  C7 does not hold for every size of the destination: when a carriage return that is not
  followed by a line feed is stored in the last byte of \<open>p\<close>, the guard
  \<^verbatim>\<open>n < len(p)\<close> (always true there) lets the line feed be stored at \<^verbatim>\<open>p[len(p)]\<close>,
  and Read panics. Two runs: the input \<^verbatim>\<open>\r\<close> read into one byte, and the input
  \<^verbatim>\<open>a\rb\<close> read into two bytes.
\<close>

theorem crlf_Read_panics:
  "fst (crlf_Read (Reader [[CHR 0x0D]]) [CHR 0x00]) = (1, Some indexPanic) \<and>
   fst (crlf_Read (Reader [''a'' @ [CHR 0x0D] @ ''b'']) [CHR 0x00, CHR 0x00]) = (2, Some indexPanic)"
  by (simp add: crlf_Read_def Reader_def NewReader_def NewReaderSize_def crlf_loop.simps
       ReadByte.simps fill_def Peek_def peek_fill.simps eval_nat_numeral)

end
